theory Spec2Isabelle
  imports Main "HOL-Library.Char_ord" "HOL-Library.List_Lexorder"
begin

section \<open>Data model\<close>

text \<open>
  The forecast record decoded from the JSON body. Go's \<open>float64\<close> values are never
  computed with: they are decoded, stored and handed to a formatting verb. They are kept
  abstract as the type parameter \<open>'f\<close>. The two anonymous structs \<open>Hourly\<close> and
  \<open>Daily\<close> both have a field \<open>Time\<close>; the fields carry the struct's initial here.
\<close>

record 'f hourly =
  hTime :: "string list"
  hTemperature2m :: "'f list"
  hPrecipitationProbability :: "'f list"
  hPrecipitation :: "'f list"

record 'f daily =
  dTime :: "string list"
  dTemperature2mMax :: "'f list"
  dTemperature2mMin :: "'f list"
  dPrecipitationSum :: "'f list"
  dRainSum :: "'f list"
  dPrecipitationHours :: "'f list"
  dPrecipitationProbabilityMax :: "'f list"
  dWindSpeed10mMax :: "'f list"

record 'f WeatherResponse =
  Latitude :: 'f
  Longitude :: 'f
  Timezone :: string
  Hourly :: "'f hourly"
  Daily :: "'f daily"

text \<open>
  A Go \<open>error\<close> value as the program sees it: its message and, for an error built with
  the \<open>%w\<close> verb, the error it wraps.
\<close>

datatype go_error = Error (message: string) (unwrap: "go_error option")

text \<open>A run-time panic of an index expression \<open>xs[i]\<close>: the index and the length.\<close>

datatype fault = IndexOutOfRange int nat

text \<open>How the process ends: \<open>os.Exit(c)\<close> or falling off \<open>main\<close> (code 0), or a panic.\<close>

datatype status = Exited int | Panicked fault

text \<open>
  Standard output, one value per \<open>fmt.Printf\<close>/\<open>fmt.Println\<close> call of the source,
  holding the call's arguments; the rendering of the verbs is not modelled.
\<close>

datatype 'f line =
    UsingDefault
  | UsageHint
  | DaysError
  | FetchError go_error
  | Header 'f 'f string
  | DayHeader string string
  | DayTemperature 'f 'f
  | DayPrecipitation 'f 'f
  | DayRain 'f 'f
  | DayWind 'f
  | CurrentTime string int
  | FoundNext int int
  | NoFuture
  | TzWarning go_error
  | HourlyTitle int
  | HourLine string 'f 'f 'f

record http_response =
  StatusCode :: int
  Body :: "go_error + string"

text \<open>
  What the program takes from outside itself, as parameters: the decimal formatting of
  a float (\<open>strconv.FormatFloat(x, 'f', -1, 64)\<close>), the network (\<open>client.Get\<close>, with
  \<open>Body\<close> the result of \<open>io.ReadAll\<close>), the JSON decoder into \<open>WeatherResponse\<close>,
  the timezone database (\<open>time.LoadLocation\<close>), the clock (\<open>time.Now()\<close>, an instant
  on the integer time line) and the timestamp parser
  (\<open>time.ParseInLocation("2006-01-02T15:04", s, loc)\<close>).
\<close>

record ('f, 'loc) env =
  FormatFloat :: "'f \<Rightarrow> string"
  Get :: "string \<Rightarrow> go_error + http_response"
  Unmarshal :: "string \<Rightarrow> go_error + 'f WeatherResponse"
  LoadLocation :: "string \<Rightarrow> go_error + 'loc"
  Now :: int
  ParseInLocation :: "string \<Rightarrow> 'loc \<Rightarrow> go_error + int"

text \<open>The parsed command line: the three flag values and \<open>flag.NFlag()\<close>.\<close>

record 'f cli =
  lat :: 'f
  lon :: 'f
  days :: int
  NFlag :: nat

text \<open>The observable behaviour of one run.\<close>

record 'f run =
  stdout :: "'f line list"
  requests :: "string list"
  exit :: status

section \<open>Formatting helpers\<close>

text \<open>The verb \<open>%d\<close>: decimal digits, with a minus sign for a negative number.\<close>

definition digit :: "nat \<Rightarrow> char" where
  "digit d = char_of (48 + d)"

function decimal :: "nat \<Rightarrow> string" where
  "decimal n = (if n < 10 then [digit n] else decimal (n div 10) @ [digit (n mod 10)])"
  by pat_completeness auto
termination
  by (relation "measure id") auto

definition itoa :: "int \<Rightarrow> string" where
  "itoa i = (if i < 0 then CHR ''-'' # decimal (nat (- i)) else decimal (nat i))"

text \<open>Reading a decimal back: the value of a string of digits.\<close>

definition undecimal :: "string \<Rightarrow> nat" where
  "undecimal s = foldl (\<lambda>a c. 10 * a + (of_char c - 48)) 0 s"

text \<open>\<open>fmt.Errorf\<close> with a format that ends in \<open>%w\<close>, and with one that ends in \<open>%d\<close>.\<close>

definition Errorf_w :: "string \<Rightarrow> go_error \<Rightarrow> go_error" where
  "Errorf_w prefix err = Error (prefix @ message err) (Some err)"

definition Errorf_d :: "string \<Rightarrow> int \<Rightarrow> go_error" where
  "Errorf_d prefix n = Error (prefix @ itoa n) None"

section \<open>Query strings (\<open>url.Values\<close>)\<close>

text \<open>
  \<open>url.Values\<close> is a map from a key to the list of its values; \<open>Add\<close> appends to the
  key's list. \<open>Encode\<close> writes the keys in sorted order, each value as
  \<open>key=value\<close> with both sides query-escaped, joined by \<open>&\<close>.
\<close>

type_synonym Values = "(string \<times> string list) list"

definition Add :: "string \<Rightarrow> string \<Rightarrow> Values \<Rightarrow> Values" where
  "Add key v params =
     (case map_of params key of
        None \<Rightarrow> params @ [(key, [v])]
      | Some vs \<Rightarrow> map (\<lambda>(k, ws). if k = key then (k, ws @ [v]) else (k, ws)) params)"

definition upperhex :: "nat \<Rightarrow> char" where
  "upperhex d = (if d < 10 then char_of (48 + d) else char_of (55 + d))"

definition shouldEscape :: "char \<Rightarrow> bool" where
  "shouldEscape c =
     (let n = (of_char c :: nat) in
      \<not> ((97 \<le> n \<and> n \<le> 122) \<or> (65 \<le> n \<and> n \<le> 90) \<or> (48 \<le> n \<and> n \<le> 57)
         \<or> c = CHR ''-'' \<or> c = CHR ''_'' \<or> c = CHR ''.'' \<or> c = CHR ''~''))"

fun QueryEscape :: "string \<Rightarrow> string" where
  "QueryEscape [] = []"
| "QueryEscape (c # cs) =
     (if shouldEscape c then
        (if c = CHR '' '' then CHR ''+'' # QueryEscape cs
         else CHR ''%'' # upperhex (of_char c div 16) # upperhex (of_char c mod 16) # QueryEscape cs)
      else c # QueryEscape cs)"

fun encode_values :: "string \<Rightarrow> string list \<Rightarrow> string \<Rightarrow> string" where
  "encode_values keyEscaped [] buf = buf"
| "encode_values keyEscaped (v # vs) buf =
     encode_values keyEscaped vs
       ((if buf = [] then buf else buf @ ''&'') @ keyEscaped @ ''='' @ QueryEscape v)"

fun encode_keys :: "Values \<Rightarrow> string list \<Rightarrow> string \<Rightarrow> string" where
  "encode_keys params [] buf = buf"
| "encode_keys params (k # ks) buf =
     encode_keys params ks
       (encode_values (QueryEscape k) (case map_of params k of None \<Rightarrow> [] | Some vs \<Rightarrow> vs) buf)"

definition Encode :: "Values \<Rightarrow> string" where
  "Encode params = encode_keys params (sort (map fst params)) []"

section \<open>The forecast client\<close>

definition baseURL :: string where
  "baseURL = ''https://api.open-meteo.com/v1/forecast''"

definition request_params :: "('f, 'loc) env \<Rightarrow> 'f \<Rightarrow> 'f \<Rightarrow> Values" where
  "request_params e latitude longitude =
     Add ''timezone'' ''auto''
      (Add ''daily'' ''temperature_2m_max,temperature_2m_min,precipitation_sum,rain_sum,precipitation_hours,precipitation_probability_max,wind_speed_10m_max''
        (Add ''hourly'' ''temperature_2m,precipitation_probability,precipitation''
          (Add ''longitude'' (FormatFloat e longitude)
            (Add ''latitude'' (FormatFloat e latitude) []))))"

definition fullURL :: "('f, 'loc) env \<Rightarrow> 'f \<Rightarrow> 'f \<Rightarrow> string" where
  "fullURL e latitude longitude = baseURL @ ''?'' @ Encode (request_params e latitude longitude)"

text \<open>
  \<open>GetWeatherForecast\<close>: the result, with the list of the URLs it sent a GET request to.
\<close>

definition GetWeatherForecast ::
  "('f, 'loc) env \<Rightarrow> 'f \<Rightarrow> 'f \<Rightarrow> string list \<times> (go_error + 'f WeatherResponse)" where
  "GetWeatherForecast e latitude longitude =
     (let url = fullURL e latitude longitude in
      (case Get e url of
         Inl err \<Rightarrow> ([url], Inl (Errorf_w ''error making request: '' err))
       | Inr resp \<Rightarrow>
           if StatusCode resp \<noteq> 200
           then ([url], Inl (Errorf_d ''API request failed with status code: '' (StatusCode resp)))
           else (case Body resp of
                   Inl err \<Rightarrow> ([url], Inl (Errorf_w ''error reading response body: '' err))
                 | Inr body \<Rightarrow>
                     (case Unmarshal e body of
                        Inl err \<Rightarrow> ([url], Inl (Errorf_w ''error parsing JSON response: '' err))
                      | Inr weatherResponse \<Rightarrow> ([url], Inr weatherResponse)))))"

section \<open>Index expressions and print sequences\<close>

text \<open>The index expression \<open>xs[i]\<close>: it panics when \<open>i\<close> is out of range.\<close>

definition index :: "'a list \<Rightarrow> int \<Rightarrow> fault + 'a" where
  "index xs i =
     (if 0 \<le> i \<and> i < int (length xs) then Inr (xs ! nat i)
      else Inl (IndexOutOfRange i (length xs)))"

definition and_then :: "fault + 'a \<Rightarrow> ('a \<Rightarrow> fault + 'b) \<Rightarrow> fault + 'b" where
  "and_then m f = (case m of Inl p \<Rightarrow> Inl p | Inr x \<Rightarrow> f x)"

text \<open>
  A sequence of print statements. The arguments of each are evaluated (left to right)
  before it prints; the first panic stops the sequence, what was printed stays printed.
\<close>

fun run_prints :: "(fault + 'l) list \<Rightarrow> 'l list \<times> fault option" where
  "run_prints [] = ([], None)"
| "run_prints (Inl p # ps) = ([], Some p)"
| "run_prints (Inr l # ps) = (case run_prints ps of (ls, r) \<Rightarrow> (l # ls, r))"

section \<open>The forecast presenter\<close>

subsection \<open>Locating the current hour\<close>

text \<open>
  The \<open>range\<close> loop of \<open>findCurrentHourIndex\<close>, from index \<open>i\<close> on: the first
  entry that parses to an instant after the current time, with its index.
\<close>

fun scan_hours :: "('f, 'loc) env \<Rightarrow> 'loc \<Rightarrow> int \<Rightarrow> string list \<Rightarrow> (int \<times> int) option" where
  "scan_hours e loc i [] = None"
| "scan_hours e loc i (timeStr # rest) =
     (case ParseInLocation e timeStr loc of
        Inl err \<Rightarrow> scan_hours e loc (i + 1) rest
      | Inr forecastTime \<Rightarrow>
          if forecastTime > Now e then Some (forecastTime, i)
          else scan_hours e loc (i + 1) rest)"

text \<open>\<open>findCurrentHourIndex\<close>: what it prints, the index and the error (\<open>None\<close> is nil).\<close>

definition findCurrentHourIndex ::
  "('f, 'loc) env \<Rightarrow> string list \<Rightarrow> string \<Rightarrow> 'f line list \<times> int \<times> go_error option" where
  "findCurrentHourIndex e hourlyTimes timezone =
     (case LoadLocation e timezone of
        Inl err \<Rightarrow>
          ([], 0, Some (Errorf_w (''error loading timezone '' @ timezone @ '': '') err))
      | Inr loc \<Rightarrow>
          (case scan_hours e loc 0 hourlyTimes of
             Some (forecastTime, i) \<Rightarrow>
               ([CurrentTime timezone (Now e), FoundNext forecastTime i], i, None)
           | None \<Rightarrow> ([CurrentTime timezone (Now e), NoFuture], 0, None)))"

subsection \<open>The daily summary\<close>

definition dayLabel :: "int \<Rightarrow> string" where
  "dayLabel i =
     (if i = 0 then ''Today'' else if i = 1 then ''Tomorrow'' else ''Day '' @ itoa (i + 1))"

definition daily_prints :: "'f daily \<Rightarrow> int \<Rightarrow> (fault + 'f line) list" where
  "daily_prints d i =
     [and_then (index (dTime d) i) (\<lambda>t. Inr (DayHeader (dayLabel i) t)),
      and_then (index (dTemperature2mMin d) i) (\<lambda>a.
        and_then (index (dTemperature2mMax d) i) (\<lambda>b. Inr (DayTemperature a b))),
      and_then (index (dPrecipitationSum d) i) (\<lambda>a.
        and_then (index (dPrecipitationProbabilityMax d) i) (\<lambda>b. Inr (DayPrecipitation a b))),
      and_then (index (dRainSum d) i) (\<lambda>a.
        and_then (index (dPrecipitationHours d) i) (\<lambda>b. Inr (DayRain a b))),
      and_then (index (dWindSpeed10mMax d) i) (\<lambda>a. Inr (DayWind a))]"

function daily_loop :: "'f daily \<Rightarrow> int \<Rightarrow> int \<Rightarrow> 'f line list \<times> fault option" where
  "daily_loop d i daysToShow =
     (if i < daysToShow then
        (case run_prints (daily_prints d i) of
           (ls, Some p) \<Rightarrow> (ls, Some p)
         | (ls, None) \<Rightarrow>
             (case daily_loop d (i + 1) daysToShow of (ls', r) \<Rightarrow> (ls @ ls', r)))
      else ([], None))"
  by pat_completeness auto
termination
  by (relation "measure (\<lambda>(d, i, daysToShow). nat (daysToShow - i))") auto

text \<open>The daily part of \<open>main\<close> (the same text in both source files).\<close>

definition render_daily :: "'f daily \<Rightarrow> int \<Rightarrow> 'f line list \<times> fault option" where
  "render_daily d n =
     (let daysToShow = (if int (length (dTime d)) < n then int (length (dTime d)) else n)
      in daily_loop d 0 daysToShow)"

subsection \<open>The hourly summary\<close>

definition hourly_print :: "'f hourly \<Rightarrow> int \<Rightarrow> fault + 'f line" where
  "hourly_print h idx =
     and_then (index (hTime h) idx) (\<lambda>t.
       and_then (index (hTemperature2m h) idx) (\<lambda>a.
         and_then (index (hPrecipitation h) idx) (\<lambda>b.
           and_then (index (hPrecipitationProbability h) idx) (\<lambda>c. Inr (HourLine t a b c)))))"

function hourly_loop :: "'f hourly \<Rightarrow> int \<Rightarrow> int \<Rightarrow> int \<Rightarrow> 'f line list \<times> fault option" where
  "hourly_loop h currentIndex j hoursToPrint =
     (if j < hoursToPrint then
        (let idx = currentIndex + j in
         if idx \<ge> int (length (hTime h)) then ([], None)
         else (case hourly_print h idx of
                 Inl p \<Rightarrow> ([], Some p)
               | Inr l \<Rightarrow>
                   (case hourly_loop h currentIndex (j + 1) hoursToPrint of
                      (ls, r) \<Rightarrow> (l # ls, r))))
      else ([], None))"
  by pat_completeness auto
termination
  by (relation "measure (\<lambda>(h, currentIndex, j, hoursToPrint). nat (hoursToPrint - j))") auto

text \<open>The end of \<open>main\<close> in the version with \<open>findCurrentHourIndex\<close>, from the index on.\<close>

definition render_hourly :: "'f hourly \<Rightarrow> int \<Rightarrow> 'f line list \<times> fault option" where
  "render_hourly h currentIndex =
     (let hoursToPrint = 5;
          title = HourlyTitle hoursToPrint;
          maxIndex = int (length (hTime h));
          hoursToPrint =
            (if currentIndex + hoursToPrint > maxIndex then maxIndex - currentIndex
             else hoursToPrint)
      in case hourly_loop h currentIndex 0 hoursToPrint of (ls, r) \<Rightarrow> (title # ls, r))"

definition hourly_section :: "('f, 'loc) env \<Rightarrow> 'f WeatherResponse \<Rightarrow> 'f line list \<times> fault option" where
  "hourly_section e response =
     (case findCurrentHourIndex e (hTime (Hourly response)) (Timezone response) of
        (printed, currentIndex, err) \<Rightarrow>
          (let (warning, currentIndex) =
                 (case err of Some x \<Rightarrow> ([TzWarning x], 0) | None \<Rightarrow> ([], currentIndex))
           in case render_hourly (Hourly response) currentIndex of
                (ls, r) \<Rightarrow> (printed @ warning @ ls, r)))"

text \<open>The end of \<open>main\<close> in \<open>main.go\<close>: the first five hours, no search.\<close>

function hourly_loop0 :: "'f hourly \<Rightarrow> int \<Rightarrow> int \<Rightarrow> 'f line list \<times> fault option" where
  "hourly_loop0 h j hoursToPrint =
     (if j < hoursToPrint then
        (case hourly_print h j of
           Inl p \<Rightarrow> ([], Some p)
         | Inr l \<Rightarrow> (case hourly_loop0 h (j + 1) hoursToPrint of (ls, r) \<Rightarrow> (l # ls, r)))
      else ([], None))"
  by pat_completeness auto
termination
  by (relation "measure (\<lambda>(h, j, hoursToPrint). nat (hoursToPrint - j))") auto

definition render_hourly0 :: "'f hourly \<Rightarrow> 'f line list \<times> fault option" where
  "render_hourly0 h =
     (let hoursToPrint = 5;
          title = HourlyTitle hoursToPrint;
          hoursToPrint =
            (if int (length (hTime h)) < hoursToPrint then int (length (hTime h))
             else hoursToPrint)
      in case hourly_loop0 h 0 hoursToPrint of (ls, r) \<Rightarrow> (title # ls, r))"

section \<open>The entry point\<close>

text \<open>
  \<open>main\<close> after \<open>flag.Parse()\<close>, parameterised by its last part, which is where the two
  source files differ.
\<close>

definition main_with ::
  "('f WeatherResponse \<Rightarrow> 'f line list \<times> fault option) \<Rightarrow> ('f, 'loc) env \<Rightarrow> 'f cli \<Rightarrow> 'f run" where
  "main_with hourly_part e c =
     (let notice = (if NFlag c = 0 then [UsingDefault, UsageHint] else []) in
      if days c < 1 then
        \<lparr>stdout = notice @ [DaysError], requests = [], exit = Exited 1\<rparr>
      else
        (case GetWeatherForecast e (lat c) (lon c) of
           (reqs, Inl err) \<Rightarrow>
             \<lparr>stdout = notice @ [FetchError err], requests = reqs, exit = Exited 1\<rparr>
         | (reqs, Inr response) \<Rightarrow>
             (let out = notice @
                    [Header (Latitude response) (Longitude response) (Timezone response)]
              in case render_daily (Daily response) (days c) of
                   (ls, Some p) \<Rightarrow>
                     \<lparr>stdout = out @ ls, requests = reqs, exit = Panicked p\<rparr>
                 | (ls, None) \<Rightarrow>
                     (case hourly_part response of
                        (hs, Some p) \<Rightarrow>
                          \<lparr>stdout = out @ ls @ hs, requests = reqs, exit = Panicked p\<rparr>
                      | (hs, None) \<Rightarrow>
                          \<lparr>stdout = out @ ls @ hs, requests = reqs, exit = Exited 0\<rparr>))))"

text \<open>\<open>main\<close> of the version with \<open>findCurrentHourIndex\<close>.\<close>

definition main :: "('f, 'loc) env \<Rightarrow> 'f cli \<Rightarrow> 'f run" where
  "main e c = main_with (hourly_section e) e c"

text \<open>\<open>main\<close> of \<open>main.go\<close>.\<close>

definition main0 :: "('f, 'loc) env \<Rightarrow> 'f cli \<Rightarrow> 'f run" where
  "main0 e c = main_with (\<lambda>response. render_hourly0 (Hourly response)) e c"

section \<open>Vocabulary of the properties\<close>

text \<open>An entry is in the future when it parses, and to an instant after the current time.\<close>

definition is_future :: "('f, 'loc) env \<Rightarrow> 'loc \<Rightarrow> string \<Rightarrow> bool" where
  "is_future e loc s =
     (case ParseInLocation e s loc of Inl err \<Rightarrow> False | Inr t \<Rightarrow> t > Now e)"

text \<open>The invariant of the data model: parallel sequences share one length.\<close>

definition hourly_wf :: "'f hourly \<Rightarrow> bool" where
  "hourly_wf h \<longleftrightarrow>
     length (hTemperature2m h) = length (hTime h) \<and>
     length (hPrecipitationProbability h) = length (hTime h) \<and>
     length (hPrecipitation h) = length (hTime h)"

definition daily_wf :: "'f daily \<Rightarrow> bool" where
  "daily_wf d \<longleftrightarrow>
     length (dTemperature2mMax d) = length (dTime d) \<and>
     length (dTemperature2mMin d) = length (dTime d) \<and>
     length (dPrecipitationSum d) = length (dTime d) \<and>
     length (dRainSum d) = length (dTime d) \<and>
     length (dPrecipitationHours d) = length (dTime d) \<and>
     length (dPrecipitationProbabilityMax d) = length (dTime d) \<and>
     length (dWindSpeed10mMax d) = length (dTime d)"

text \<open>The rendered entry of hour \<open>k\<close>, and of day \<open>k\<close> under a given label.\<close>

definition hour_entry :: "'f hourly \<Rightarrow> nat \<Rightarrow> 'f line" where
  "hour_entry h k =
     HourLine (hTime h ! k) (hTemperature2m h ! k) (hPrecipitation h ! k)
       (hPrecipitationProbability h ! k)"

definition day_entry :: "'f daily \<Rightarrow> string \<Rightarrow> nat \<Rightarrow> 'f line list" where
  "day_entry d label k =
     [DayHeader label (dTime d ! k),
      DayTemperature (dTemperature2mMin d ! k) (dTemperature2mMax d ! k),
      DayPrecipitation (dPrecipitationSum d ! k) (dPrecipitationProbabilityMax d ! k),
      DayRain (dRainSum d ! k) (dPrecipitationHours d ! k),
      DayWind (dWindSpeed10mMax d ! k)]"

section \<open>A sample environment\<close>

text \<open>
  A concrete environment on which the properties are run: floats are whole numbers, the
  known zones have a fixed offset (seconds east of UTC), an instant is a number of seconds
  since 1970-01-01T00:00 UTC, and timestamps are parsed by the fixed-width pattern
  \<open>YYYY-MM-DDTHH:MM\<close>. The clock reads 2024-01-01T00:30 UTC.
\<close>

definition is_digit :: "char \<Rightarrow> bool" where
  "is_digit c = (48 \<le> (of_char c :: nat) \<and> (of_char c :: nat) \<le> 57)"

definition digit_val :: "char \<Rightarrow> int" where
  "digit_val c = int (of_char c) - 48"

definition two_digits :: "char \<Rightarrow> char \<Rightarrow> int option" where
  "two_digits a b =
     (if is_digit a \<and> is_digit b then Some (10 * digit_val a + digit_val b) else None)"

definition daysIn :: "int \<Rightarrow> int \<Rightarrow> int" where
  "daysIn m y =
     (if m = 2 then (if y mod 4 = 0 \<and> (y mod 100 \<noteq> 0 \<or> y mod 400 = 0) then 29 else 28)
      else if m = 4 \<or> m = 6 \<or> m = 9 \<or> m = 11 then 30 else 31)"

definition days_from_civil :: "int \<Rightarrow> int \<Rightarrow> int \<Rightarrow> int" where
  "days_from_civil y m d =
     (let y' = (if m \<le> 2 then y - 1 else y);
          era = y' div 400;
          yoe = y' - era * 400;
          doy = (153 * (if m > 2 then m - 3 else m + 9) + 2) div 5 + d - 1;
          doe = yoe * 365 + yoe div 4 - yoe div 100 + doy
      in era * 146097 + doe - 719468)"

definition bad_time :: "string \<Rightarrow> go_error + int" where
  "bad_time s = Inl (Error (''parsing time '' @ s) None)"

fun parse_fixed :: "string \<Rightarrow> int \<Rightarrow> go_error + int" where
  "parse_fixed [y1, y2, y3, y4, s1, m1, m2, s2, d1, d2, s3, h1, h2, s4, n1, n2] off =
     (case (two_digits y1 y2, two_digits y3 y4, two_digits m1 m2, two_digits d1 d2,
            two_digits h1 h2, two_digits n1 n2) of
        (Some yh, Some yl, Some m, Some d, Some h, Some n) \<Rightarrow>
          (let y = 100 * yh + yl in
           if s1 = CHR ''-'' \<and> s2 = CHR ''-'' \<and> s3 = CHR ''T'' \<and> s4 = CHR '':''
              \<and> 1 \<le> m \<and> m \<le> 12 \<and> 1 \<le> d \<and> d \<le> daysIn m y \<and> h < 24 \<and> n < 60
           then Inr (((days_from_civil y m d * 24 + h) * 60 + n) * 60 - off)
           else bad_time [y1, y2, y3, y4, s1, m1, m2, s2, d1, d2, s3, h1, h2, s4, n1, n2])
      | _ \<Rightarrow> bad_time [y1, y2, y3, y4, s1, m1, m2, s2, d1, d2, s3, h1, h2, s4, n1, n2])"
| "parse_fixed s off = bad_time s"

definition sample_zones :: "string \<Rightarrow> go_error + int" where
  "sample_zones name =
     (if name = ''UTC'' then Inr 0
      else if name = ''Asia/Tokyo'' then Inr 32400
      else Inl (Error (''unknown time zone '' @ name) None))"

definition sample_hourly :: "int hourly" where
  "sample_hourly =
     \<lparr>hTime = [''2024-01-01T00:00'', ''2024-01-01T01:00'', ''2024-01-01T02:00'',
               ''2024-01-01T03:00'', ''2024-01-01T04:00'', ''2024-01-01T05:00'',
               ''2024-01-01T06:00''],
      hTemperature2m = [3, 2, 2, 1, 1, 0, 1],
      hPrecipitationProbability = [10, 10, 20, 40, 60, 60, 30],
      hPrecipitation = [0, 0, 0, 1, 2, 2, 0]\<rparr>"

definition sample_daily :: "int daily" where
  "sample_daily =
     \<lparr>dTime = [''2024-01-01'', ''2024-01-02'', ''2024-01-03''],
      dTemperature2mMax = [5, 6, 4],
      dTemperature2mMin = [0, 1, -2],
      dPrecipitationSum = [5, 0, 1],
      dRainSum = [5, 0, 0],
      dPrecipitationHours = [3, 0, 1],
      dPrecipitationProbabilityMax = [60, 10, 30],
      dWindSpeed10mMax = [20, 15, 30]\<rparr>"

definition sample_response :: "string \<Rightarrow> int WeatherResponse" where
  "sample_response tz =
     \<lparr>Latitude = 40, Longitude = -74, Timezone = tz,
      Hourly = sample_hourly, Daily = sample_daily\<rparr>"

definition sample_env :: "int \<Rightarrow> string \<Rightarrow> (int, int) env" where
  "sample_env code tz =
     \<lparr>FormatFloat = itoa,
      Get = (\<lambda>url. Inr \<lparr>StatusCode = code, Body = Inr ''{}''\<rparr>),
      Unmarshal = (\<lambda>body. Inr (sample_response tz)),
      LoadLocation = sample_zones,
      Now = 1704069000,
      ParseInLocation = parse_fixed\<rparr>"

definition sample_cli :: "int \<Rightarrow> int cli" where
  "sample_cli n = \<lparr>lat = 40, lon = -74, days = n, NFlag = 3\<rparr>"

text \<open>
  Two forecasts that the decoder can return from a body with status 200 in which one
  field is missing (the missing sequence decodes to the empty one): the first lacks the
  hourly \<open>temperature_2m\<close>, the second the daily \<open>temperature_2m_min\<close>. The
  environment \<open>decoding_env r\<close> is the sample environment whose decoder returns \<open>r\<close>.
\<close>

definition no_hourly_temperature :: "int WeatherResponse" where
  "no_hourly_temperature =
     (sample_response ''UTC'')\<lparr>Hourly := sample_hourly\<lparr>hTemperature2m := []\<rparr>\<rparr>"

definition no_daily_minimum :: "int WeatherResponse" where
  "no_daily_minimum =
     (sample_response ''UTC'')\<lparr>Daily := sample_daily\<lparr>dTemperature2mMin := []\<rparr>\<rparr>"

definition decoding_env :: "int WeatherResponse \<Rightarrow> (int, int) env" where
  "decoding_env r = (sample_env 200 ''UTC'')\<lparr>Unmarshal := (\<lambda>body. Inr r)\<rparr>"

section \<open>Facts about the sample environment\<close>

lemmas sample_simps =
  sample_env_def sample_zones_def sample_hourly_def sample_daily_def sample_response_def
  sample_cli_def two_digits_def is_digit_def digit_val_def daysIn_def days_from_civil_def
  bad_time_def is_future_def

lemma sample_fetch:
  "GetWeatherForecast (sample_env 200 tz) (lat (sample_cli n)) (lon (sample_cli n))
     = ([fullURL (sample_env 200 tz) 40 (- 74)], Inr (sample_response tz))"
  by (simp add: GetWeatherForecast_def sample_env_def sample_cli_def)

text \<open>The definitions that a run on a concrete forecast unfolds.\<close>

lemmas run_simps =
  decoding_env_def no_hourly_temperature_def no_daily_minimum_def
  main_def main0_def main_with_def GetWeatherForecast_def
  hourly_section_def findCurrentHourIndex_def render_hourly_def render_hourly0_def
  hourly_loop.simps hourly_loop0.simps hourly_print_def
  render_daily_def daily_loop.simps daily_prints_def dayLabel_def
  index_def and_then_def

section \<open>Facts about decimal formatting\<close>

lemma of_char_digit: "d < 10 \<Longrightarrow> of_char (digit d) = 48 + d"
  by (simp add: digit_def)

lemma undecimal_decimal: "undecimal (decimal n) = n"
proof (induction n rule: decimal.induct)
  case (1 n)
  show ?case
  proof (cases "n < 10")
    case True
    then show ?thesis by (simp add: undecimal_def of_char_digit)
  next
    case False
    have "n mod 10 < 10" by simp
    then have "of_char (digit (n mod 10)) = 48 + n mod 10" by (rule of_char_digit)
    with False "1.IH" show ?thesis
      by (simp add: undecimal_def)
  qed
qed

lemma decimal_inject: "decimal n = decimal m \<Longrightarrow> n = m"
  by (metis undecimal_decimal)

lemma decimal_hd: "\<exists>d cs. d < 10 \<and> decimal n = digit d # cs"
proof (induction n rule: decimal.induct)
  case (1 n)
  show ?case
  proof (cases "n < 10")
    case True
    then show ?thesis by auto
  next
    case False
    with "1.IH" obtain d cs where "d < 10" "decimal (n div 10) = digit d # cs" by auto
    with False have "decimal n = digit d # (cs @ [digit (n mod 10)])" by simp
    with \<open>d < 10\<close> show ?thesis by blast
  qed
qed

lemma decimal_no_sign: "decimal n \<noteq> CHR ''-'' # cs"
proof
  assume a: "decimal n = CHR ''-'' # cs"
  from decimal_hd [of n] obtain d ds where d: "d < 10" "decimal n = digit d # ds" by auto
  with a have "digit d = CHR ''-''" by simp
  then have "of_char (digit d) = (of_char CHR ''-'' :: nat)" by simp
  with d(1) show False by (simp add: of_char_digit)
qed

lemma itoa_inject: "itoa n = itoa m \<Longrightarrow> n = m"
proof -
  assume a: "itoa n = itoa m"
  show "n = m"
  proof (cases "n < 0"; cases "m < 0")
    assume "n < 0" "m < 0"
    with a have "decimal (nat (- n)) = decimal (nat (- m))" by (simp add: itoa_def)
    then have "nat (- n) = nat (- m)" by (rule decimal_inject)
    with \<open>n < 0\<close> \<open>m < 0\<close> show ?thesis by simp
  next
    assume "n < 0" "\<not> m < 0"
    with a decimal_no_sign [of "nat m" "decimal (nat (- n))"] show ?thesis
      by (simp add: itoa_def)
  next
    assume "\<not> n < 0" "m < 0"
    with a decimal_no_sign [of "nat n" "decimal (nat (- m))"] show ?thesis
      by (simp add: itoa_def)
  next
    assume "\<not> n < 0" "\<not> m < 0"
    with a have "decimal (nat n) = decimal (nat m)" by (simp add: itoa_def)
    then have "nat n = nat m" by (rule decimal_inject)
    with \<open>\<not> n < 0\<close> \<open>\<not> m < 0\<close> show ?thesis by simp
  qed
qed

section \<open>Facts about the query string\<close>

lemma request_params_value:
  "request_params e latitude longitude
     = [(''latitude'', [FormatFloat e latitude]),
        (''longitude'', [FormatFloat e longitude]),
        (''hourly'', [''temperature_2m,precipitation_probability,precipitation'']),
        (''daily'', [''temperature_2m_max,temperature_2m_min,precipitation_sum,rain_sum,precipitation_hours,precipitation_probability_max,wind_speed_10m_max'']),
        (''timezone'', [''auto''])]"
  by (simp add: request_params_def Add_def)

lemma sorted_keys:
  "sort [''latitude'', ''longitude'', ''hourly'', ''daily'', ''timezone'']
     = [''daily'', ''hourly'', ''latitude'', ''longitude'', ''timezone'']"
  by simp

lemma upperhex_values: "upperhex 2 = CHR ''2''" "upperhex 12 = CHR ''C''"
  by code_simp+

lemma escape_hourly:
  "QueryEscape ''temperature_2m,precipitation_probability,precipitation''
     = ''temperature_2m%2Cprecipitation_probability%2Cprecipitation''"
  by (simp add: shouldEscape_def upperhex_values)

lemma escape_daily:
  "QueryEscape ''temperature_2m_max,temperature_2m_min,precipitation_sum,rain_sum,precipitation_hours,precipitation_probability_max,wind_speed_10m_max''
     = ''temperature_2m_max%2Ctemperature_2m_min%2Cprecipitation_sum%2Crain_sum%2Cprecipitation_hours%2Cprecipitation_probability_max%2Cwind_speed_10m_max''"
  by (simp add: shouldEscape_def upperhex_values)

lemma escape_keys:
  "QueryEscape ''latitude'' = ''latitude''" "QueryEscape ''longitude'' = ''longitude''"
  "QueryEscape ''hourly'' = ''hourly''" "QueryEscape ''daily'' = ''daily''"
  "QueryEscape ''timezone'' = ''timezone''" "QueryEscape ''auto'' = ''auto''"
  by (simp_all add: shouldEscape_def)

lemma fullURL_value:
  "fullURL e latitude longitude
     = ''https://api.open-meteo.com/v1/forecast?daily=temperature_2m_max%2Ctemperature_2m_min%2Cprecipitation_sum%2Crain_sum%2Cprecipitation_hours%2Cprecipitation_probability_max%2Cwind_speed_10m_max&hourly=temperature_2m%2Cprecipitation_probability%2Cprecipitation&latitude=''
       @ QueryEscape (FormatFloat e latitude) @ ''&longitude=''
       @ QueryEscape (FormatFloat e longitude) @ ''&timezone=auto''"
  unfolding fullURL_def Encode_def request_params_value
  by (simp add: sorted_keys escape_hourly escape_daily escape_keys baseURL_def
      del: QueryEscape.simps)

lemma GetWeatherForecast_requests:
  "fst (GetWeatherForecast e latitude longitude) = [fullURL e latitude longitude]"
  by (simp add: GetWeatherForecast_def Let_def split: sum.splits)

section \<open>Facts about the scan\<close>

lemma scan_hours_None:
  "scan_hours e loc i xs = None \<longleftrightarrow> (\<forall>s \<in> set xs. \<not> is_future e loc s)"
  by (induction xs arbitrary: i) (auto simp: is_future_def split: sum.splits)

lemma scan_hours_Some:
  "scan_hours e loc i xs = Some (t, k) \<Longrightarrow>
     i \<le> k \<and> k < i + int (length xs) \<and> ParseInLocation e (xs ! nat (k - i)) loc = Inr t \<and> t > Now e
     \<and> (\<forall>j < nat (k - i). \<not> is_future e loc (xs ! j))"
proof (induction xs arbitrary: i)
  case Nil
  then show ?case by simp
next
  case (Cons s xs)
  show ?case
  proof (cases "is_future e loc s")
    case True
    with Cons.prems show ?thesis
      by (auto simp: is_future_def split: sum.splits)
  next
    case False
    with Cons.prems have rec: "scan_hours e loc (i + 1) xs = Some (t, k)"
      by (auto simp: is_future_def split: sum.splits if_splits)
    note ih = Cons.IH [OF rec]
    from ih have k: "i + 1 \<le> k" by simp
    then have idx: "nat (k - i) = Suc (nat (k - (i + 1)))" by simp
    have "\<not> is_future e loc ((s # xs) ! j)" if "j < nat (k - i)" for j
    proof (cases j)
      case 0
      with False show ?thesis by simp
    next
      case (Suc j')
      with that idx have "j' < nat (k - (i + 1))" by simp
      with ih Suc show ?thesis by simp
    qed
    with ih idx show ?thesis by simp
  qed
qed

lemma scan_hours_shift:
  "scan_hours e loc (i + n) xs = map_option (\<lambda>(t, k). (t, k + n)) (scan_hours e loc i xs)"
proof (induction xs arbitrary: i)
  case Nil
  show ?case by simp
next
  case (Cons s xs)
  have "scan_hours e loc (i + n + 1) xs = scan_hours e loc (i + 1 + n) xs"
    by (simp add: ac_simps)
  with Cons.IH [of "i + 1"] show ?case
    by (simp split: sum.splits)
qed

lemma scan_hours_skip:
  "\<forall>s \<in> set skipped. isl (ParseInLocation e s loc) \<Longrightarrow>
   scan_hours e loc i (skipped @ rest) = scan_hours e loc (i + int (length skipped)) rest"
proof (induction skipped arbitrary: i)
  case Nil
  show ?case by simp
next
  case (Cons s skipped)
  from Cons.prems have "isl (ParseInLocation e s loc)" by simp
  then obtain err where "ParseInLocation e s loc = Inl err" by (cases "ParseInLocation e s loc") auto
  moreover have "scan_hours e loc (i + 1 + int (length skipped)) rest
      = scan_hours e loc (i + int (length (s # skipped))) rest"
    by (simp add: ac_simps)
  ultimately show ?case using Cons.IH [of "i + 1"] Cons.prems by simp
qed

lemma scan_hours_append:
  "scan_hours e loc i (xs @ ys)
     = (case scan_hours e loc i xs of
          Some r \<Rightarrow> Some r
        | None \<Rightarrow> scan_hours e loc (i + int (length xs)) ys)"
proof (induction xs arbitrary: i)
  case Nil
  show ?case by simp
next
  case (Cons s xs)
  have "scan_hours e loc (i + 1 + int (length xs)) ys
      = scan_hours e loc (i + int (length (s # xs))) ys"
    by (simp add: ac_simps)
  with Cons.IH [of "i + 1"] show ?case
    by (simp split: sum.splits option.splits)
qed

lemma findCurrentHourIndex_scan:
  "LoadLocation e tz = Inr loc \<Longrightarrow>
   snd (findCurrentHourIndex e xs tz)
     = (case scan_hours e loc 0 xs of Some (t, k) \<Rightarrow> (k, None) | None \<Rightarrow> (0, None))"
  by (simp add: findCurrentHourIndex_def split: option.splits prod.splits)

lemma findCurrentHourIndex_range:
  "0 \<le> fst (snd (findCurrentHourIndex e xs tz)) \<and>
   (xs \<noteq> [] \<longrightarrow> fst (snd (findCurrentHourIndex e xs tz)) < int (length xs)) \<and>
   (xs = [] \<longrightarrow> fst (snd (findCurrentHourIndex e xs tz)) = 0)"
proof (cases "LoadLocation e tz")
  case (Inl err)
  then show ?thesis by (simp add: findCurrentHourIndex_def)
next
  case (Inr loc)
  show ?thesis
  proof (cases "scan_hours e loc 0 xs")
    case None
    with Inr show ?thesis by (simp add: findCurrentHourIndex_def)
  next
    case (Some r)
    obtain t k where r: "r = (t, k)" by (cases r)
    from scan_hours_Some [of e loc 0 xs t k] Some r
    have "0 \<le> k" "k < int (length xs)" by simp_all
    with Some r Inr show ?thesis
      by (auto simp add: findCurrentHourIndex_def)
  qed
qed

lemma findCurrentHourIndex_error_zero:
  "findCurrentHourIndex e xs tz = (printed, s, Some x) \<Longrightarrow> s = 0"
  by (auto simp add: findCurrentHourIndex_def split: sum.splits option.splits)

section \<open>Facts about the rendering loops\<close>

declare daily_loop.simps [simp del] hourly_loop.simps [simp del] hourly_loop0.simps [simp del]

lemma index_in_range:
  "0 \<le> i \<Longrightarrow> i < int (length xs) \<Longrightarrow> index xs i = Inr (xs ! nat i)"
  by (simp add: index_def)

lemma and_then_Inr: "and_then (Inr x) f = f x"
  by (simp add: and_then_def)

lemma dayLabel_nat:
  "dayLabel (int k)
     = (if k = 0 then ''Today'' else if k = 1 then ''Tomorrow'' else ''Day '' @ decimal (k + 1))"
proof -
  have "nat (int k + 1) = k + 1" by simp
  then show ?thesis by (simp add: dayLabel_def itoa_def)
qed

lemma daily_prints_wf:
  assumes "daily_wf d" "0 \<le> i" "i < int (length (dTime d))"
  shows "run_prints (daily_prints d i) = (day_entry d (dayLabel i) (nat i), None)"
  using assms
  by (simp add: daily_prints_def daily_wf_def index_in_range and_then_Inr day_entry_def)

lemma daily_loop_wf:
  "daily_wf d \<Longrightarrow> 0 \<le> i \<Longrightarrow> n \<le> int (length (dTime d)) \<Longrightarrow>
   daily_loop d i n
     = (concat (map (\<lambda>k. day_entry d (dayLabel (int k)) k) [nat i ..< nat n]), None)"
proof (induction d i n rule: daily_loop.induct)
  case (1 d i n)
  show ?case
  proof (cases "i < n")
    case False
    then show ?thesis by (simp add: daily_loop.simps [of d i n])
  next
    case True
    with "1.prems" have body: "run_prints (daily_prints d i) = (day_entry d (dayLabel i) (nat i), None)"
      by (intro daily_prints_wf) simp_all
    have rest: "daily_loop d (i + 1) n
        = (concat (map (\<lambda>k. day_entry d (dayLabel (int k)) k) [nat (i + 1) ..< nat n]), None)"
      using "1.IH" [OF True body [symmetric]] "1.prems" by simp
    from True "1.prems" have "[nat i ..< nat n] = nat i # [nat (i + 1) ..< nat n]"
      by (simp add: upt_conv_Cons nat_add_distrib)
    with True body rest "1.prems" show ?thesis
      by (simp add: daily_loop.simps [of d i n])
  qed
qed

lemma render_daily_wf:
  assumes "daily_wf d"
  shows "render_daily d n
     = (concat (map (\<lambda>k. day_entry d (dayLabel (int k)) k)
                 [0 ..< min (nat n) (length (dTime d))]), None)"
proof -
  let ?m = "if int (length (dTime d)) < n then int (length (dTime d)) else n"
  have "nat ?m = min (nat n) (length (dTime d))" by auto
  moreover have "?m \<le> int (length (dTime d))" by simp
  ultimately show ?thesis
    using daily_loop_wf [OF assms, of 0 ?m] by (simp add: render_daily_def)
qed

lemma hourly_print_wf:
  assumes "hourly_wf h" "0 \<le> i" "i < int (length (hTime h))"
  shows "hourly_print h i = Inr (hour_entry h (nat i))"
  using assms
  by (simp add: hourly_print_def hourly_wf_def index_in_range and_then_Inr hour_entry_def)

lemma hourly_loop_wf:
  "hourly_wf h \<Longrightarrow> 0 \<le> s \<Longrightarrow> 0 \<le> j \<Longrightarrow>
   hourly_loop h s j m
     = (map (hour_entry h) [nat (s + j) ..< nat (min (s + m) (int (length (hTime h))))], None)"
proof (induction h s j m rule: hourly_loop.induct)
  case (1 h s j m)
  show ?case
  proof (cases "j < m \<and> s + j < int (length (hTime h))")
    case False
    then have "nat (min (s + m) (int (length (hTime h)))) \<le> nat (s + j)"
      by auto
    with False show ?thesis
      by (auto simp add: hourly_loop.simps [of h s j m] Let_def)
  next
    case True
    with "1.prems" have body: "hourly_print h (s + j) = Inr (hour_entry h (nat (s + j)))"
      by (intro hourly_print_wf) simp_all
    have rest: "hourly_loop h s (j + 1) m
        = (map (hour_entry h) [nat (s + (j + 1)) ..< nat (min (s + m) (int (length (hTime h))))], None)"
      using "1.IH" [OF _ refl _ body] True "1.prems" by simp
    from True "1.prems" have lt: "nat (s + j) < nat (min (s + m) (int (length (hTime h))))"
      by linarith
    from "1.prems" have suc: "nat (s + (j + 1)) = Suc (nat (s + j))"
      by linarith
    have "[nat (s + j) ..< nat (min (s + m) (int (length (hTime h))))]
        = nat (s + j) # [nat (s + (j + 1)) ..< nat (min (s + m) (int (length (hTime h))))]"
      unfolding suc by (rule upt_conv_Cons [OF lt])
    with True body rest show ?thesis
      by (simp add: hourly_loop.simps [of h s j m] Let_def)
  qed
qed

lemma render_hourly_wf:
  assumes "hourly_wf h" "0 \<le> s"
  shows "render_hourly h s
     = (HourlyTitle 5 # map (hour_entry h)
          [nat s ..< nat s + nat (max 0 (min 5 (int (length (hTime h)) - s)))], None)"
proof -
  let ?len = "int (length (hTime h))"
  let ?m = "if s + 5 > ?len then ?len - s else 5"
  have "nat (min (s + ?m) ?len) = nat s + nat (max 0 (min 5 (?len - s)))" if "s \<le> ?len"
    using that assms(2) by auto
  moreover
  have "[nat s ..< nat (min (s + ?m) ?len)] = [] \<and>
        [nat s ..< nat s + nat (max 0 (min 5 (?len - s)))] = []" if "\<not> s \<le> ?len"
    using that assms(2) by auto
  ultimately have "[nat s ..< nat (min (s + ?m) ?len)]
      = [nat s ..< nat s + nat (max 0 (min 5 (?len - s)))]"
    by (cases "s \<le> ?len") simp_all
  with hourly_loop_wf [OF assms, of 0 ?m] show ?thesis
    by (simp add: render_hourly_def Let_def)
qed

lemma hourly_loop0_wf:
  "hourly_wf h \<Longrightarrow> 0 \<le> j \<Longrightarrow> m \<le> int (length (hTime h)) \<Longrightarrow>
   hourly_loop0 h j m = (map (hour_entry h) [nat j ..< nat m], None)"
proof (induction h j m rule: hourly_loop0.induct)
  case (1 h j m)
  show ?case
  proof (cases "j < m")
    case False
    then show ?thesis by (simp add: hourly_loop0.simps [of h j m])
  next
    case True
    with "1.prems" have body: "hourly_print h j = Inr (hour_entry h (nat j))"
      by (intro hourly_print_wf) simp_all
    have rest: "hourly_loop0 h (j + 1) m = (map (hour_entry h) [nat (j + 1) ..< nat m], None)"
      using "1.IH" [OF True body] "1.prems" by simp
    from True "1.prems" have "[nat j ..< nat m] = nat j # [nat (j + 1) ..< nat m]"
      by (simp add: upt_conv_Cons nat_add_distrib)
    with True body rest show ?thesis
      by (simp add: hourly_loop0.simps [of h j m])
  qed
qed

lemma render_hourly0_wf:
  assumes "hourly_wf h"
  shows "render_hourly0 h
     = (HourlyTitle 5 # map (hour_entry h) [0 ..< nat (max 0 (min 5 (int (length (hTime h)) - 0)))], None)"
proof -
  let ?len = "int (length (hTime h))"
  let ?m = "if ?len < 5 then ?len else 5"
  have "nat ?m = nat (max 0 (min 5 (?len - 0)))" by auto
  moreover have "?m \<le> ?len" by simp
  ultimately show ?thesis
    using hourly_loop0_wf [OF assms, of 0 ?m] by (simp add: render_hourly0_def Let_def)
qed

lemma hourly_section_wf:
  assumes "hourly_wf (Hourly r)"
    and "findCurrentHourIndex e (hTime (Hourly r)) (Timezone r) = (printed, s, err)"
  shows "hourly_section e r
     = (printed @ (case err of None \<Rightarrow> [] | Some x \<Rightarrow> [TzWarning x]) @
        HourlyTitle 5 # map (hour_entry (Hourly r))
          [nat s ..< nat s + nat (max 0 (min 5 (int (length (hTime (Hourly r))) - s)))], None)"
proof -
  from findCurrentHourIndex_range [of e "hTime (Hourly r)" "Timezone r"] assms(2)
  have s: "0 \<le> s" by simp
  show ?thesis
  proof (cases err)
    case None
    with assms(2) render_hourly_wf [OF assms(1) s] show ?thesis
      by (simp add: hourly_section_def)
  next
    case (Some x)
    with assms(2) have "s = 0" by (simp add: findCurrentHourIndex_error_zero)
    with Some assms(2) render_hourly_wf [OF assms(1) s] show ?thesis
      by (simp add: hourly_section_def)
  qed
qed

section \<open>Facts about the entry point\<close>

lemma main_with_days_error:
  "days c < 1 \<Longrightarrow>
   main_with part e c
     = \<lparr>stdout = (if NFlag c = 0 then [UsingDefault, UsageHint] else []) @ [DaysError],
        requests = [], exit = Exited 1\<rparr>"
  by (simp add: main_with_def)

lemma main_with_fetch_error:
  assumes "1 \<le> days c" and "snd (GetWeatherForecast e (lat c) (lon c)) = Inl err"
  shows "main_with part e c
     = \<lparr>stdout = (if NFlag c = 0 then [UsingDefault, UsageHint] else []) @ [FetchError err],
        requests = [fullURL e (lat c) (lon c)], exit = Exited 1\<rparr>"
proof -
  from assms(2) GetWeatherForecast_requests [of e "lat c" "lon c"]
  have "GetWeatherForecast e (lat c) (lon c) = ([fullURL e (lat c) (lon c)], Inl err)"
    by (cases "GetWeatherForecast e (lat c) (lon c)") simp
  with assms(1) show ?thesis by (simp add: main_with_def)
qed

lemma main_with_requests:
  "requests (main_with part e c) = (if days c < 1 then [] else [fullURL e (lat c) (lon c)])"
proof (cases "days c < 1")
  case True
  then show ?thesis by (simp add: main_with_def)
next
  case False
  obtain reqs res where g: "GetWeatherForecast e (lat c) (lon c) = (reqs, res)"
    by (cases "GetWeatherForecast e (lat c) (lon c)")
  with GetWeatherForecast_requests [of e "lat c" "lon c"]
  have "reqs = [fullURL e (lat c) (lon c)]" by simp
  with False g show ?thesis
    by (simp add: main_with_def Let_def split: sum.splits prod.splits option.splits)
qed

lemma main_with_completes:
  assumes "1 \<le> days c"
    and "GetWeatherForecast e (lat c) (lon c) = (reqs, Inr r)"
    and "render_daily (Daily r) (days c) = (ls, None)"
    and "part r = (hs, None)"
  shows "main_with part e c
     = \<lparr>stdout = (if NFlag c = 0 then [UsingDefault, UsageHint] else []) @
                  [Header (Latitude r) (Longitude r) (Timezone r)] @ ls @ hs,
        requests = reqs, exit = Exited 0\<rparr>"
  using assms by (simp add: main_with_def)

lemma main_with_exits:
  assumes "\<forall>r. snd (GetWeatherForecast e (lat c) (lon c)) = Inr r \<longrightarrow>
             (\<exists>ls. render_daily (Daily r) (days c) = (ls, None)) \<and> (\<exists>hs. part r = (hs, None))"
  shows "\<exists>code. exit (main_with part e c) = Exited code"
proof (cases "days c < 1")
  case True
  then show ?thesis by (simp add: main_with_def)
next
  case False
  obtain reqs res where g: "GetWeatherForecast e (lat c) (lon c) = (reqs, res)"
    by (cases "GetWeatherForecast e (lat c) (lon c)")
  show ?thesis
  proof (cases res)
    case (Inl err)
    with False g show ?thesis by (simp add: main_with_def)
  next
    case (Inr r)
    with g assms obtain ls hs where "render_daily (Daily r) (days c) = (ls, None)"
      "part r = (hs, None)"
      by auto
    with False g Inr show ?thesis
      using main_with_completes [of c e reqs r ls part hs] by simp
  qed
qed

section \<open>The request\<close>

text \<open>
  Claim C8. For every latitude and longitude, \<open>GetWeatherForecast\<close> sends one GET
  request, to the base endpoint followed by \<open>?\<close> and the encoded query; the query
  parameters are exactly \<open>latitude\<close> and \<open>longitude\<close> (each the result of
  \<open>strconv.FormatFloat(x, 'f', -1, 64)\<close>), \<open>hourly\<close> and \<open>daily\<close> with their fixed
  field lists, and \<open>timezone\<close> with the value \<open>auto\<close>.
\<close>

theorem request_query_parameters:
  "request_params e latitude longitude
     = [(''latitude'', [FormatFloat e latitude]),
        (''longitude'', [FormatFloat e longitude]),
        (''hourly'', [''temperature_2m,precipitation_probability,precipitation'']),
        (''daily'', [''temperature_2m_max,temperature_2m_min,precipitation_sum,rain_sum,precipitation_hours,precipitation_probability_max,wind_speed_10m_max'']),
        (''timezone'', [''auto''])]
   \<and> fst (GetWeatherForecast e latitude longitude)
       = [''https://api.open-meteo.com/v1/forecast'' @ ''?''
            @ Encode (request_params e latitude longitude)]
   \<and> fst (GetWeatherForecast e latitude longitude)
       = [''https://api.open-meteo.com/v1/forecast?daily=temperature_2m_max%2Ctemperature_2m_min%2Cprecipitation_sum%2Crain_sum%2Cprecipitation_hours%2Cprecipitation_probability_max%2Cwind_speed_10m_max&hourly=temperature_2m%2Cprecipitation_probability%2Cprecipitation&latitude=''
           @ QueryEscape (FormatFloat e latitude) @ ''&longitude=''
           @ QueryEscape (FormatFloat e longitude) @ ''&timezone=auto'']"
proof (intro conjI)
  show "request_params e latitude longitude
     = [(''latitude'', [FormatFloat e latitude]),
        (''longitude'', [FormatFloat e longitude]),
        (''hourly'', [''temperature_2m,precipitation_probability,precipitation'']),
        (''daily'', [''temperature_2m_max,temperature_2m_min,precipitation_sum,rain_sum,precipitation_hours,precipitation_probability_max,wind_speed_10m_max'']),
        (''timezone'', [''auto''])]"
    by (rule request_params_value)
  show "fst (GetWeatherForecast e latitude longitude)
       = [''https://api.open-meteo.com/v1/forecast'' @ ''?''
            @ Encode (request_params e latitude longitude)]"
    unfolding GetWeatherForecast_requests by (simp add: fullURL_def baseURL_def)
  show "fst (GetWeatherForecast e latitude longitude)
       = [''https://api.open-meteo.com/v1/forecast?daily=temperature_2m_max%2Ctemperature_2m_min%2Cprecipitation_sum%2Crain_sum%2Cprecipitation_hours%2Cprecipitation_probability_max%2Cwind_speed_10m_max&hourly=temperature_2m%2Cprecipitation_probability%2Cprecipitation&latitude=''
           @ QueryEscape (FormatFloat e latitude) @ ''&longitude=''
           @ QueryEscape (FormatFloat e longitude) @ ''&timezone=auto'']"
    unfolding GetWeatherForecast_requests fullURL_value by (rule refl)
qed

section \<open>Fetch errors\<close>

text \<open>
  Claim C6. A response whose status code is not 200 makes \<open>GetWeatherForecast\<close> fail
  with the error whose message is \<open>API request failed with status code:\<close> followed by
  the code in decimal; the code can be read back from the error (two codes give the same
  error only when they are equal); \<open>main\<close> then prints the error and exits with status 1,
  as it does after every fetch failure. Each of the four failures (transport, status,
  body read, decoding) gives its own error, and the messages of the four are pairwise
  different whatever the underlying errors are.
\<close>

theorem fetch_status_error:
  "(Get e (fullURL e (lat c) (lon c)) = Inr resp \<and> StatusCode resp \<noteq> 200 \<longrightarrow>
      snd (GetWeatherForecast e (lat c) (lon c))
        = Inl (Error (''API request failed with status code: '' @ itoa (StatusCode resp)) None)
      \<and> (1 \<le> days c \<longrightarrow>
           exit (main e c) = Exited 1
           \<and> stdout (main e c)
               = (if NFlag c = 0 then [UsingDefault, UsageHint] else []) @
                 [FetchError (Error (''API request failed with status code: ''
                                      @ itoa (StatusCode resp)) None)]))
   \<and> (Errorf_d ''API request failed with status code: '' n
        = Errorf_d ''API request failed with status code: '' m \<longrightarrow> n = m)
   \<and> (Get e (fullURL e (lat c) (lon c)) = Inl err \<longrightarrow>
        snd (GetWeatherForecast e (lat c) (lon c))
          = Inl (Errorf_w ''error making request: '' err))
   \<and> (Get e (fullURL e (lat c) (lon c)) = Inr resp \<and> StatusCode resp \<noteq> 200 \<longrightarrow>
        snd (GetWeatherForecast e (lat c) (lon c))
          = Inl (Errorf_d ''API request failed with status code: '' (StatusCode resp)))
   \<and> (Get e (fullURL e (lat c) (lon c)) = Inr resp \<and> StatusCode resp = 200
        \<and> Body resp = Inl err \<longrightarrow>
        snd (GetWeatherForecast e (lat c) (lon c))
          = Inl (Errorf_w ''error reading response body: '' err))
   \<and> (Get e (fullURL e (lat c) (lon c)) = Inr resp \<and> StatusCode resp = 200
        \<and> Body resp = Inr body \<and> Unmarshal e body = Inl err \<longrightarrow>
        snd (GetWeatherForecast e (lat c) (lon c))
          = Inl (Errorf_w ''error parsing JSON response: '' err))
   \<and> distinct
        [message (Errorf_w ''error making request: '' e1),
         message (Errorf_d ''API request failed with status code: '' n),
         message (Errorf_w ''error reading response body: '' e2),
         message (Errorf_w ''error parsing JSON response: '' e3)]
   \<and> (1 \<le> days c \<and> snd (GetWeatherForecast e (lat c) (lon c)) = Inl x \<longrightarrow>
        exit (main e c) = Exited 1)"
proof (intro conjI impI)
  assume h: "Get e (fullURL e (lat c) (lon c)) = Inr resp \<and> StatusCode resp \<noteq> 200"
  then show r: "snd (GetWeatherForecast e (lat c) (lon c))
        = Inl (Error (''API request failed with status code: '' @ itoa (StatusCode resp)) None)"
    by (simp add: GetWeatherForecast_def Errorf_d_def)
  then show "snd (GetWeatherForecast e (lat c) (lon c))
          = Inl (Errorf_d ''API request failed with status code: '' (StatusCode resp))"
    by (simp add: Errorf_d_def)
  assume d: "1 \<le> days c"
  from main_with_fetch_error [OF d r, of "hourly_section e"]
  show "exit (main e c) = Exited 1"
    and "stdout (main e c)
               = (if NFlag c = 0 then [UsingDefault, UsageHint] else []) @
                 [FetchError (Error (''API request failed with status code: ''
                                      @ itoa (StatusCode resp)) None)]"
    by (simp_all add: main_def)
next
  assume "Errorf_d ''API request failed with status code: '' n
        = Errorf_d ''API request failed with status code: '' m"
  then have "itoa n = itoa m" by (simp add: Errorf_d_def)
  then show "n = m" by (rule itoa_inject)
next
  assume "Get e (fullURL e (lat c) (lon c)) = Inl err"
  then show "snd (GetWeatherForecast e (lat c) (lon c))
          = Inl (Errorf_w ''error making request: '' err)"
    by (simp add: GetWeatherForecast_def)
next
  assume "Get e (fullURL e (lat c) (lon c)) = Inr resp \<and> StatusCode resp = 200
        \<and> Body resp = Inl err"
  then show "snd (GetWeatherForecast e (lat c) (lon c))
          = Inl (Errorf_w ''error reading response body: '' err)"
    by (simp add: GetWeatherForecast_def)
next
  assume "Get e (fullURL e (lat c) (lon c)) = Inr resp \<and> StatusCode resp = 200
        \<and> Body resp = Inr body \<and> Unmarshal e body = Inl err"
  then show "snd (GetWeatherForecast e (lat c) (lon c))
          = Inl (Errorf_w ''error parsing JSON response: '' err)"
    by (simp add: GetWeatherForecast_def)
next
  show "distinct
        [message (Errorf_w ''error making request: '' e1),
         message (Errorf_d ''API request failed with status code: '' n),
         message (Errorf_w ''error reading response body: '' e2),
         message (Errorf_w ''error parsing JSON response: '' e3)]"
    by (simp add: Errorf_w_def Errorf_d_def)
next
  assume "1 \<le> days c \<and> snd (GetWeatherForecast e (lat c) (lon c)) = Inl x"
  then show "exit (main e c) = Exited 1"
    using main_with_fetch_error [of c e x "hourly_section e"] by (simp add: main_def)
qed

theorem fetch_status_error_witness:
  "Get (sample_env 500 ''UTC'') (fullURL (sample_env 500 ''UTC'') (lat (sample_cli 2)) (lon (sample_cli 2)))
     = Inr \<lparr>StatusCode = 500, Body = Inr ''{}''\<rparr>
   \<and> StatusCode \<lparr>StatusCode = 500, Body = Inr ''{}''\<rparr> \<noteq> 200
   \<and> 1 \<le> days (sample_cli 2)
   \<and> snd (GetWeatherForecast (sample_env 500 ''UTC'') (lat (sample_cli 2)) (lon (sample_cli 2)))
       = Inl (Error ''API request failed with status code: 500'' None)
   \<and> exit (main (sample_env 500 ''UTC'') (sample_cli 2)) = Exited 1
   \<and> stdout (main (sample_env 500 ''UTC'') (sample_cli 2))
       = [FetchError (Error ''API request failed with status code: 500'' None)]"
proof -
  have g: "Get (sample_env 500 ''UTC'')
       (fullURL (sample_env 500 ''UTC'') (lat (sample_cli 2)) (lon (sample_cli 2)))
     = Inr \<lparr>StatusCode = 500, Body = Inr ''{}''\<rparr>"
    by (simp add: sample_env_def)
  have s: "StatusCode \<lparr>StatusCode = 500, Body = Inr ''{}''\<rparr> \<noteq> 200" by simp
  have d: "1 \<le> days (sample_cli 2)" by (simp add: sample_cli_def)
  have i: "itoa 500 = ''500''" by code_simp
  have nf: "NFlag (sample_cli 2) \<noteq> 0" by (simp add: sample_cli_def)
  from fetch_status_error [of "sample_env 500 ''UTC''" "sample_cli 2"
      "\<lparr>StatusCode = 500, Body = Inr ''{}''\<rparr>"] g s d nf
  show ?thesis by (simp add: i)
qed

section \<open>Day-count validation\<close>

text \<open>
  Claim C7. With a day count below 1, \<open>main\<close> prints the error line and exits with
  status 1 having sent no request; with a day count of at least 1 it sends exactly one
  request, to the forecast URL.
\<close>

theorem days_validation:
  "(days c < 1 \<longrightarrow>
      main e c = \<lparr>stdout = (if NFlag c = 0 then [UsingDefault, UsageHint] else []) @ [DaysError],
                  requests = [], exit = Exited 1\<rparr>
      \<and> main0 e c = main e c)
   \<and> (1 \<le> days c \<longrightarrow>
        requests (main e c) = [fullURL e (lat c) (lon c)]
        \<and> requests (main0 e c) = [fullURL e (lat c) (lon c)])"
  by (simp add: main_def main0_def main_with_days_error main_with_requests)

theorem days_validation_witness:
  "days (sample_cli 0) < 1
   \<and> main (sample_env 200 ''UTC'') (sample_cli 0)
       = \<lparr>stdout = [DaysError], requests = [], exit = Exited 1\<rparr>
   \<and> 1 \<le> days (sample_cli 2)
   \<and> requests (main (sample_env 200 ''UTC'') (sample_cli 2))
       = [fullURL (sample_env 200 ''UTC'') 40 (- 74)]"
proof -
  have a: "days (sample_cli 0) < 1" and b: "1 \<le> days (sample_cli 2)"
    by (simp_all add: sample_cli_def)
  from days_validation [of "sample_cli 0" "sample_env 200 ''UTC''"] a
  have "main (sample_env 200 ''UTC'') (sample_cli 0)
       = \<lparr>stdout = [DaysError], requests = [], exit = Exited 1\<rparr>"
    by (simp add: sample_cli_def)
  moreover from days_validation [of "sample_cli 2" "sample_env 200 ''UTC''"] b
  have "requests (main (sample_env 200 ''UTC'') (sample_cli 2))
       = [fullURL (sample_env 200 ''UTC'') 40 (- 74)]"
    by (simp add: sample_cli_def)
  ultimately show ?thesis using a b by blast
qed

section \<open>Locating the current hour\<close>

text \<open>
  Claim C1. When the timezone resolves, \<open>findCurrentHourIndex\<close> returns, with a nil
  error, either the index of the first entry of the sequence that parses to an instant
  strictly after the current time, or, when no entry does (the empty sequence included),
  the index 0.
\<close>

theorem locateNow_first_future:
  assumes "LoadLocation e timezone = Inr loc"
  shows "\<exists>printed i. findCurrentHourIndex e hourlyTimes timezone = (printed, i, None) \<and>
     (0 \<le> i \<and> i < int (length hourlyTimes)
        \<and> is_future e loc (hourlyTimes ! nat i)
        \<and> (\<forall>j < nat i. \<not> is_future e loc (hourlyTimes ! j))
      \<or> (\<forall>s \<in> set hourlyTimes. \<not> is_future e loc s) \<and> i = 0)"
proof (cases "scan_hours e loc 0 hourlyTimes")
  case None
  then have "\<forall>s \<in> set hourlyTimes. \<not> is_future e loc s"
    by (simp add: scan_hours_None)
  with None assms show ?thesis
    by (simp add: findCurrentHourIndex_def)
next
  case (Some r)
  obtain t k where r: "r = (t, k)" by (cases r)
  from scan_hours_Some [of e loc 0 hourlyTimes t k] Some r
  have "0 \<le> k" "k < int (length hourlyTimes)"
    "ParseInLocation e (hourlyTimes ! nat k) loc = Inr t" "t > Now e"
    "\<forall>j < nat k. \<not> is_future e loc (hourlyTimes ! j)"
    by simp_all
  moreover from this have "is_future e loc (hourlyTimes ! nat k)"
    by (simp add: is_future_def)
  ultimately show ?thesis using Some r assms
    by (simp add: findCurrentHourIndex_def)
qed

theorem locateNow_first_future_witness:
  "LoadLocation (sample_env 200 ''UTC'') ''UTC'' = Inr 0 \<and>
   (\<exists>printed i.
      findCurrentHourIndex (sample_env 200 ''UTC'') (hTime sample_hourly) ''UTC''
        = (printed :: int line list, i, None) \<and> i = 1 \<and>
      is_future (sample_env 200 ''UTC'') 0 (hTime sample_hourly ! nat i))"
proof -
  have h: "LoadLocation (sample_env 200 ''UTC'') ''UTC'' = Inr 0"
    by (simp add: sample_simps)
  show ?thesis
    using h locateNow_first_future [OF h, of "hTime sample_hourly"]
    by (simp add: sample_simps findCurrentHourIndex_def)
qed

text \<open>
  Claim C3. Entries that fail to parse are skipped and the scan goes on: inserted
  anywhere in a sequence, a run of unparseable entries changes nothing when a future
  entry stands before it, shifts the index found by its length when the first future
  entry stands after it, and leaves the fallback 0 otherwise; the error stays nil. In
  particular, when \<open>bad\<close> does not parse and the current time lies after
  2024-01-01T00:00 and before 2024-01-01T01:00 (as 00:30 does), the sequence
  \<open>bad, 2024-01-01T00:00, 2024-01-01T01:00\<close> gives index 2.
\<close>

theorem locateNow_skips_unparseable:
  assumes "LoadLocation e timezone = Inr loc"
  shows "((\<forall>s \<in> set skipped. isl (ParseInLocation e s loc)) \<longrightarrow>
            snd (findCurrentHourIndex e (before @ skipped @ rest) timezone)
              = (if \<exists>s \<in> set before. is_future e loc s
                 then snd (findCurrentHourIndex e (before @ rest) timezone)
                 else if \<exists>s \<in> set rest. is_future e loc s
                 then (fst (snd (findCurrentHourIndex e (before @ rest) timezone))
                         + int (length skipped), None)
                 else (0, None)))
       \<and> (isl (ParseInLocation e ''bad'' loc)
            \<and> ParseInLocation e ''2024-01-01T00:00'' loc = Inr t0
            \<and> ParseInLocation e ''2024-01-01T01:00'' loc = Inr t1
            \<and> t0 < Now e \<and> Now e < t1 \<longrightarrow>
          snd (findCurrentHourIndex e [''bad'', ''2024-01-01T00:00'', ''2024-01-01T01:00''] timezone)
            = (2, None))"
proof (intro conjI impI)
  assume skip: "\<forall>s \<in> set skipped. isl (ParseInLocation e s loc)"
  let ?n = "int (length before)"
  have full: "scan_hours e loc 0 (before @ skipped @ rest)
      = (case scan_hours e loc 0 before of
           Some r \<Rightarrow> Some r
         | None \<Rightarrow> map_option (\<lambda>(t, k). (t, k + int (length skipped))) (scan_hours e loc ?n rest))"
    using scan_hours_append [of e loc 0 before "skipped @ rest"]
      scan_hours_skip [OF skip, of ?n rest]
      scan_hours_shift [of e loc ?n "int (length skipped)" rest]
    by (simp split: option.splits)
  have short: "scan_hours e loc 0 (before @ rest)
      = (case scan_hours e loc 0 before of
           Some r \<Rightarrow> Some r
         | None \<Rightarrow> scan_hours e loc ?n rest)"
    using scan_hours_append [of e loc 0 before rest] by (simp split: option.splits)
  show "snd (findCurrentHourIndex e (before @ skipped @ rest) timezone)
      = (if \<exists>s \<in> set before. is_future e loc s
         then snd (findCurrentHourIndex e (before @ rest) timezone)
         else if \<exists>s \<in> set rest. is_future e loc s
         then (fst (snd (findCurrentHourIndex e (before @ rest) timezone))
                 + int (length skipped), None)
         else (0, None))"
  proof (cases "scan_hours e loc 0 before")
    case (Some r)
    then have "\<exists>s \<in> set before. is_future e loc s"
      using scan_hours_None [of e loc 0 before] by auto
    with Some full short show ?thesis
      by (simp add: findCurrentHourIndex_scan [OF assms])
  next
    case None
    then have nb: "\<not> (\<exists>s \<in> set before. is_future e loc s)"
      by (simp add: scan_hours_None)
    show ?thesis
    proof (cases "scan_hours e loc ?n rest")
      case None
      then have "\<not> (\<exists>s \<in> set rest. is_future e loc s)"
        by (simp add: scan_hours_None)
      with None \<open>scan_hours e loc 0 before = None\<close> nb full show ?thesis
        by (simp add: findCurrentHourIndex_scan [OF assms])
    next
      case (Some r)
      then have "\<exists>s \<in> set rest. is_future e loc s"
        using scan_hours_None [of e loc ?n rest] by auto
      with Some \<open>scan_hours e loc 0 before = None\<close> nb full short show ?thesis
        by (simp add: findCurrentHourIndex_scan [OF assms] split: prod.splits)
    qed
  qed
next
  assume h: "isl (ParseInLocation e ''bad'' loc)
            \<and> ParseInLocation e ''2024-01-01T00:00'' loc = Inr t0
            \<and> ParseInLocation e ''2024-01-01T01:00'' loc = Inr t1
            \<and> t0 < Now e \<and> Now e < t1"
  then obtain err where "ParseInLocation e ''bad'' loc = Inl err"
    by (cases "ParseInLocation e ''bad'' loc") auto
  with h assms
  show "snd (findCurrentHourIndex e [''bad'', ''2024-01-01T00:00'', ''2024-01-01T01:00''] timezone)
            = (2, None)"
    by (simp add: findCurrentHourIndex_def)
qed

theorem locateNow_skips_unparseable_witness:
  "LoadLocation (sample_env 200 ''UTC'') ''UTC'' = Inr 0
   \<and> isl (ParseInLocation (sample_env 200 ''UTC'') ''bad'' 0)
   \<and> isl (ParseInLocation (sample_env 200 ''UTC'') ''2024-13-01T00:00'' 0)
   \<and> snd (findCurrentHourIndex (sample_env 200 ''UTC'')
         ([''2024-01-01T00:00''] @ [''bad'', ''2024-13-01T00:00''] @ [''2024-01-01T01:00'']) ''UTC''
           :: int line list \<times> int \<times> go_error option) = (3, None)
   \<and> ParseInLocation (sample_env 200 ''UTC'') ''2024-01-01T00:00'' 0 = Inr 1704067200
   \<and> ParseInLocation (sample_env 200 ''UTC'') ''2024-01-01T01:00'' 0 = Inr 1704070800
   \<and> ParseInLocation (sample_env 200 ''UTC'') ''2024-01-01T00:30'' 0
       = Inr (Now (sample_env 200 ''UTC''))
   \<and> 1704067200 < Now (sample_env 200 ''UTC'') \<and> Now (sample_env 200 ''UTC'') < 1704070800
   \<and> snd (findCurrentHourIndex (sample_env 200 ''UTC'')
        [''bad'', ''2024-01-01T00:00'', ''2024-01-01T01:00''] ''UTC''
          :: int line list \<times> int \<times> go_error option) = (2, None)"
proof -
  let ?e = "sample_env 200 ''UTC''"
  have h: "LoadLocation ?e ''UTC'' = Inr 0"
    by (simp add: sample_simps)
  have p: "isl (ParseInLocation ?e ''bad'' 0)" "isl (ParseInLocation ?e ''2024-13-01T00:00'' 0)"
    by (simp_all add: sample_simps)
  then have p': "\<forall>s \<in> set [''bad'', ''2024-13-01T00:00'']. isl (ParseInLocation ?e s 0)"
    by simp
  have nb: "\<not> (\<exists>s \<in> set [''2024-01-01T00:00'']. is_future ?e 0 s)"
    by (simp add: sample_simps)
  have f: "\<exists>s \<in> set [''2024-01-01T01:00'']. is_future ?e 0 s"
    by (simp add: sample_simps)
  have r: "fst (snd (findCurrentHourIndex ?e ([''2024-01-01T00:00''] @ [''2024-01-01T01:00'']) ''UTC''
       :: int line list \<times> int \<times> go_error option)) = 1"
    by (simp add: sample_simps findCurrentHourIndex_def)
  have q: "isl (ParseInLocation ?e ''bad'' 0)
   \<and> ParseInLocation ?e ''2024-01-01T00:00'' 0 = Inr 1704067200
   \<and> ParseInLocation ?e ''2024-01-01T01:00'' 0 = Inr 1704070800
   \<and> 1704067200 < Now ?e \<and> Now ?e < 1704070800"
    by (simp add: sample_simps)
  have n: "ParseInLocation ?e ''2024-01-01T00:30'' 0 = Inr (Now ?e)"
    by (simp add: sample_simps)
  note inst = locateNow_skips_unparseable [OF h, of "[''bad'', ''2024-13-01T00:00'']"
      "[''2024-01-01T00:00'']" "[''2024-01-01T01:00'']" 1704067200 1704070800]
  from inst p' nb f r
  have a: "snd (findCurrentHourIndex ?e
         ([''2024-01-01T00:00''] @ [''bad'', ''2024-13-01T00:00''] @ [''2024-01-01T01:00'']) ''UTC''
           :: int line list \<times> int \<times> go_error option) = (3, None)"
    by simp
  from inst q have b: "snd (findCurrentHourIndex ?e
        [''bad'', ''2024-01-01T00:00'', ''2024-01-01T01:00''] ''UTC''
          :: int line list \<times> int \<times> go_error option) = (2, None)"
    by blast
  from h p a q n b show ?thesis by blast
qed

text \<open>
  Claim C10. The error returned by \<open>findCurrentHourIndex\<close> is non-nil exactly when
  \<open>time.LoadLocation\<close> fails on the timezone string; whatever the sequence holds,
  a resolved timezone gives a nil error.
\<close>

theorem findCurrentHourIndex_error_iff:
  "snd (snd (findCurrentHourIndex e hourlyTimes timezone)) \<noteq> None
     \<longleftrightarrow> isl (LoadLocation e timezone)"
  by (simp add: findCurrentHourIndex_def split: sum.splits option.splits prod.splits)

section \<open>Timezone failure\<close>

text \<open>
  Claim C4. When \<open>time.LoadLocation\<close> fails on the forecast's timezone string,
  \<open>findCurrentHourIndex\<close> returns index 0 with a non-nil error that wraps the failure,
  and the caller goes on: it prints the warning with that error and renders the hourly
  summary from index 0. On a forecast whose parallel sequences share one length the run
  so prints, after the daily summary, the warning, the hourly title and the first
  \<open>min 5 (length of the times)\<close> entries, and ends with exit code 0.
\<close>

theorem timezone_failure_degrades:
  assumes "LoadLocation e (Timezone r) = Inl err"
  shows "findCurrentHourIndex e hourlyTimes (Timezone r)
       = ([], 0, Some (Errorf_w (''error loading timezone '' @ Timezone r @ '': '') err))
     \<and> hourly_section e r
       = (TzWarning (Errorf_w (''error loading timezone '' @ Timezone r @ '': '') err)
            # fst (render_hourly (Hourly r) 0),
          snd (render_hourly (Hourly r) 0))
     \<and> (1 \<le> days c \<and> GetWeatherForecast e (lat c) (lon c) = (reqs, Inr r)
          \<and> daily_wf (Daily r) \<and> hourly_wf (Hourly r) \<longrightarrow>
        stdout (main e c)
          = (if NFlag c = 0 then [UsingDefault, UsageHint] else []) @
            [Header (Latitude r) (Longitude r) (Timezone r)] @
            fst (render_daily (Daily r) (days c)) @
            [TzWarning (Errorf_w (''error loading timezone '' @ Timezone r @ '': '') err),
             HourlyTitle 5] @
            map (hour_entry (Hourly r)) [0 ..< min 5 (length (hTime (Hourly r)))]
        \<and> exit (main e c) = Exited 0)"
proof (intro conjI impI)
  show f: "findCurrentHourIndex e hourlyTimes (Timezone r)
       = ([], 0, Some (Errorf_w (''error loading timezone '' @ Timezone r @ '': '') err))"
    for hourlyTimes
    using assms by (simp add: findCurrentHourIndex_def)
  show "hourly_section e r
       = (TzWarning (Errorf_w (''error loading timezone '' @ Timezone r @ '': '') err)
            # fst (render_hourly (Hourly r) 0),
          snd (render_hourly (Hourly r) 0))"
    by (simp add: hourly_section_def f split: prod.splits)
  assume h: "1 \<le> days c \<and> GetWeatherForecast e (lat c) (lon c) = (reqs, Inr r)
          \<and> daily_wf (Daily r) \<and> hourly_wf (Hourly r)"
  then have d: "render_daily (Daily r) (days c) = (fst (render_daily (Daily r) (days c)), None)"
    using render_daily_wf [of "Daily r" "days c"] by simp
  have "nat (max 0 (min 5 (int (length (hTime (Hourly r)))))) = min 5 (length (hTime (Hourly r)))"
    by auto
  with h hourly_section_wf [OF _ f [of "hTime (Hourly r)"]]
  have s: "hourly_section e r
     = ([TzWarning (Errorf_w (''error loading timezone '' @ Timezone r @ '': '') err),
             HourlyTitle 5] @
            map (hour_entry (Hourly r)) [0 ..< min 5 (length (hTime (Hourly r)))], None)"
    by simp
  from h have m: "main e c
     = \<lparr>stdout = (if NFlag c = 0 then [UsingDefault, UsageHint] else []) @
                  [Header (Latitude r) (Longitude r) (Timezone r)] @
                  fst (render_daily (Daily r) (days c)) @
                  [TzWarning (Errorf_w (''error loading timezone '' @ Timezone r @ '': '') err),
                   HourlyTitle 5] @
                  map (hour_entry (Hourly r)) [0 ..< min 5 (length (hTime (Hourly r)))],
        requests = reqs, exit = Exited 0\<rparr>"
    unfolding main_def
    using main_with_completes [of c e reqs r _ "hourly_section e" _, OF _ _ d s] by simp
  show "stdout (main e c)
          = (if NFlag c = 0 then [UsingDefault, UsageHint] else []) @
            [Header (Latitude r) (Longitude r) (Timezone r)] @
            fst (render_daily (Daily r) (days c)) @
            [TzWarning (Errorf_w (''error loading timezone '' @ Timezone r @ '': '') err),
             HourlyTitle 5] @
            map (hour_entry (Hourly r)) [0 ..< min 5 (length (hTime (Hourly r)))]"
    by (simp add: m)
  show "exit (main e c) = Exited 0" by (simp add: m)
qed

theorem timezone_failure_degrades_witness:
  "LoadLocation (sample_env 200 ''Mars/Olympus'') (Timezone (sample_response ''Mars/Olympus''))
     = Inl (Error ''unknown time zone Mars/Olympus'' None)
   \<and> 1 \<le> days (sample_cli 2)
   \<and> GetWeatherForecast (sample_env 200 ''Mars/Olympus'') (lat (sample_cli 2)) (lon (sample_cli 2))
       = ([fullURL (sample_env 200 ''Mars/Olympus'') 40 (- 74)], Inr (sample_response ''Mars/Olympus''))
   \<and> daily_wf (Daily (sample_response ''Mars/Olympus''))
   \<and> hourly_wf (Hourly (sample_response ''Mars/Olympus''))
   \<and> findCurrentHourIndex (sample_env 200 ''Mars/Olympus'') (hTime sample_hourly)
        (Timezone (sample_response ''Mars/Olympus''))
       = ([] :: int line list, 0,
          Some (Error ''error loading timezone Mars/Olympus: unknown time zone Mars/Olympus''
                 (Some (Error ''unknown time zone Mars/Olympus'' None))))
   \<and> exit (main (sample_env 200 ''Mars/Olympus'') (sample_cli 2)) = Exited 0
   \<and> stdout (main (sample_env 200 ''Mars/Olympus'') (sample_cli 2))
       = [Header 40 (- 74) ''Mars/Olympus''] @
         fst (render_daily sample_daily 2) @
         [TzWarning (Error ''error loading timezone Mars/Olympus: unknown time zone Mars/Olympus''
                      (Some (Error ''unknown time zone Mars/Olympus'' None))),
          HourlyTitle 5,
          HourLine ''2024-01-01T00:00'' 3 0 10, HourLine ''2024-01-01T01:00'' 2 0 10,
          HourLine ''2024-01-01T02:00'' 2 0 20, HourLine ''2024-01-01T03:00'' 1 1 40,
          HourLine ''2024-01-01T04:00'' 1 2 60]"
proof -
  let ?e = "sample_env 200 ''Mars/Olympus''" and ?r = "sample_response ''Mars/Olympus''"
  have l: "LoadLocation ?e (Timezone ?r) = Inl (Error ''unknown time zone Mars/Olympus'' None)"
    by (simp add: sample_env_def sample_response_def sample_zones_def)
  have d: "1 \<le> days (sample_cli 2)" by (simp add: sample_cli_def)
  have g: "GetWeatherForecast ?e (lat (sample_cli 2)) (lon (sample_cli 2))
       = ([fullURL ?e 40 (- 74)], Inr ?r)"
    by (rule sample_fetch)
  have w: "daily_wf (Daily ?r)" "hourly_wf (Hourly ?r)"
    by (simp_all add: sample_response_def sample_hourly_def sample_daily_def
        hourly_wf_def daily_wf_def)
  have u: "[0 ..< min 5 (length (hTime (Hourly ?r)))] = [0, 1, 2, 3, 4]"
    by (simp add: sample_response_def sample_hourly_def upt_rec)
  have nf: "NFlag (sample_cli 2) \<noteq> 0" "days (sample_cli 2) = 2" by (simp_all add: sample_cli_def)
  have r: "Latitude ?r = 40" "Longitude ?r = - 74" "Timezone ?r = ''Mars/Olympus''"
    "Daily ?r = sample_daily"
    by (simp_all add: sample_response_def)
  have h: "map (hour_entry (Hourly ?r)) [0, 1, 2, 3, 4]
      = [HourLine ''2024-01-01T00:00'' 3 0 10, HourLine ''2024-01-01T01:00'' 2 0 10,
          HourLine ''2024-01-01T02:00'' 2 0 20, HourLine ''2024-01-01T03:00'' 1 1 40,
          HourLine ''2024-01-01T04:00'' 1 2 60]"
    by (simp add: hour_entry_def sample_response_def sample_hourly_def)
  note inst = timezone_failure_degrades [OF l, of "hTime sample_hourly" "sample_cli 2"
      "[fullURL ?e 40 (- 74)]", unfolded u h r]
  from inst l d g w nf show ?thesis
    by (simp add: Errorf_w_def r)
qed

section \<open>The daily summary\<close>

text \<open>
  Claim C5, with the invariant of the data model as its premise. For a day count
  \<open>n \<ge> 1\<close> and daily sequences that share one length, the daily part of \<open>main\<close>
  prints, without a panic, the entries of the days \<open>0, 1, ...\<close> in order,
  \<open>min n (length of the dates)\<close> of them, the first labelled \<open>Today\<close>, the second
  \<open>Tomorrow\<close> and the entry of index \<open>k \<ge> 2\<close> labelled \<open>Day\<close> followed by \<open>k + 1\<close>
  in decimal.
\<close>

theorem daily_summary_entries:
  assumes "daily_wf d" and "1 \<le> n"
  shows "render_daily d n
     = (concat (map (\<lambda>k. day_entry d
                  (if k = 0 then ''Today'' else if k = 1 then ''Tomorrow''
                   else ''Day '' @ decimal (k + 1)) k)
          [0 ..< min (nat n) (length (dTime d))]), None)"
  using render_daily_wf [OF assms(1), of n] by (simp add: dayLabel_nat)

theorem daily_summary_entries_witness:
  "daily_wf sample_daily \<and> (1::int) \<le> 7 \<and>
   render_daily sample_daily 7
     = ([DayHeader ''Today'' ''2024-01-01'', DayTemperature 0 5, DayPrecipitation 5 60,
         DayRain 5 3, DayWind 20,
         DayHeader ''Tomorrow'' ''2024-01-02'', DayTemperature 1 6, DayPrecipitation 0 10,
         DayRain 0 0, DayWind 15,
         DayHeader ''Day 3'' ''2024-01-03'', DayTemperature (- 2) 4, DayPrecipitation 1 30,
         DayRain 0 1, DayWind 30], None)"
proof -
  have w: "daily_wf sample_daily" by (simp add: daily_wf_def sample_daily_def)
  have n: "(1::int) \<le> 7" by simp
  have u: "[0 ..< min (nat 7) (length (dTime sample_daily))] = [0, 1, 2]"
    by (simp add: sample_daily_def upt_rec)
  have d: "digit 3 = CHR ''3''" by code_simp
  from daily_summary_entries [OF w n] w show ?thesis
    unfolding u by (simp add: day_entry_def sample_daily_def d)
qed

text \<open>
  The premise is needed. The program does not compare the lengths of the sequences it
  decodes: for the forecast without \<open>temperature_2m_min\<close> (three dates) and a day
  count of 2, where two entries are due, the daily part prints the first header and
  panics on \<open>Temperature2mMin[0]\<close>, in both versions of \<open>main\<close>.
\<close>

theorem daily_summary_entries_counterexample:
  "(1 :: int) \<le> 2
   \<and> min (nat 2) (length (dTime (Daily no_daily_minimum))) = 2
   \<and> render_daily (Daily no_daily_minimum) 2
       = ([DayHeader ''Today'' ''2024-01-01''], Some (IndexOutOfRange 0 0))
   \<and> stdout (main (decoding_env no_daily_minimum) (sample_cli 2))
       = [Header 40 (- 74) ''UTC'', DayHeader ''Today'' ''2024-01-01'']
   \<and> exit (main (decoding_env no_daily_minimum) (sample_cli 2))
       = Panicked (IndexOutOfRange 0 0)
   \<and> exit (main0 (decoding_env no_daily_minimum) (sample_cli 2))
       = Panicked (IndexOutOfRange 0 0)"
  by (simp add: run_simps sample_simps)

section \<open>The hourly summary\<close>

text \<open>
  Claim C2, with the invariant of the data model as its premise. For hourly sequences
  that share one length and the start index \<open>s\<close> that \<open>findCurrentHourIndex\<close> returns,
  the hourly part of \<open>main\<close> prints, after the title, exactly
  \<open>max 0 (min 5 (length of the times - s))\<close> entries: those of the indices
  \<open>s, s + 1, ...\<close> in order, and the window ends within the sequence. The \<open>main\<close> of
  \<open>main.go\<close>, which has no search, prints the same window from index 0.
\<close>

theorem hourly_summary_window:
  assumes "hourly_wf (Hourly r)"
    and "findCurrentHourIndex e (hTime (Hourly r)) (Timezone r) = (printed, s, err)"
  shows "hourly_section e r
     = (printed @ (case err of None \<Rightarrow> [] | Some x \<Rightarrow> [TzWarning x]) @
        HourlyTitle 5 # map (hour_entry (Hourly r))
          [nat s ..< nat s + nat (max 0 (min 5 (int (length (hTime (Hourly r))) - s)))], None)
     \<and> nat s + nat (max 0 (min 5 (int (length (hTime (Hourly r))) - s)))
         \<le> length (hTime (Hourly r))
     \<and> render_hourly0 (Hourly r)
         = (HourlyTitle 5 # map (hour_entry (Hourly r))
              [0 ..< nat (max 0 (min 5 (int (length (hTime (Hourly r))) - 0)))], None)"
proof -
  have idx: "fst (snd (findCurrentHourIndex e (hTime (Hourly r)) (Timezone r))) = s"
    using assms(2) by simp
  from findCurrentHourIndex_range [of e "hTime (Hourly r)" "Timezone r", unfolded idx]
  have "0 \<le> s" "hTime (Hourly r) \<noteq> [] \<longrightarrow> s < int (length (hTime (Hourly r)))"
    "hTime (Hourly r) = [] \<longrightarrow> s = 0"
    by blast+
  then have "nat s + nat (max 0 (min 5 (int (length (hTime (Hourly r))) - s)))
         \<le> length (hTime (Hourly r))"
    by (cases "hTime (Hourly r) = []") auto
  with hourly_section_wf [OF assms] render_hourly0_wf [OF assms(1)] show ?thesis
    by simp
qed

theorem hourly_summary_window_witness:
  "hourly_wf (Hourly (sample_response ''UTC''))
   \<and> findCurrentHourIndex (sample_env 200 ''UTC'') (hTime (Hourly (sample_response ''UTC'')))
        (Timezone (sample_response ''UTC''))
       = ([CurrentTime ''UTC'' 1704069000, FoundNext 1704070800 1], 1, None)
   \<and> hourly_section (sample_env 200 ''UTC'') (sample_response ''UTC'')
       = ([CurrentTime ''UTC'' 1704069000, FoundNext 1704070800 1, HourlyTitle 5,
           HourLine ''2024-01-01T01:00'' 2 0 10, HourLine ''2024-01-01T02:00'' 2 0 20,
           HourLine ''2024-01-01T03:00'' 1 1 40, HourLine ''2024-01-01T04:00'' 1 2 60,
           HourLine ''2024-01-01T05:00'' 0 2 60], None)"
proof -
  have w: "hourly_wf (Hourly (sample_response ''UTC''))"
    by (simp add: hourly_wf_def sample_response_def sample_hourly_def)
  have f: "findCurrentHourIndex (sample_env 200 ''UTC'') (hTime (Hourly (sample_response ''UTC'')))
        (Timezone (sample_response ''UTC''))
       = ([CurrentTime ''UTC'' 1704069000, FoundNext 1704070800 1], 1, None)"
    by (simp add: findCurrentHourIndex_def sample_simps)
  have u: "[nat 1 ..< nat 1 + nat (max 0 (min 5 (int (length (hTime (Hourly (sample_response ''UTC'')))) - 1)))]
      = [1, 2, 3, 4, 5]"
    by (simp add: sample_response_def sample_hourly_def upt_rec)
  from hourly_summary_window [OF w f] w f show ?thesis
    unfolding u by (simp add: hour_entry_def sample_response_def sample_hourly_def)
qed

text \<open>
  The premise is needed. For the forecast without the hourly \<open>temperature_2m\<close> (seven
  times, start index 1), where five entries are due, the hourly part prints the title,
  then panics on \<open>Temperature2m[1]\<close> with no entry printed: an index past the end of
  a sequence it reads. The \<open>main\<close> of \<open>main.go\<close> panics on \<open>Temperature2m[0]\<close>.
\<close>

theorem hourly_summary_window_counterexample:
  "findCurrentHourIndex (decoding_env no_hourly_temperature)
       (hTime (Hourly no_hourly_temperature)) (Timezone no_hourly_temperature)
     = ([CurrentTime ''UTC'' 1704069000, FoundNext 1704070800 1], 1, None)
   \<and> max 0 (min 5 (int (length (hTime (Hourly no_hourly_temperature))) - 1)) = 5
   \<and> hourly_section (decoding_env no_hourly_temperature) no_hourly_temperature
       = ([CurrentTime ''UTC'' 1704069000, FoundNext 1704070800 1, HourlyTitle 5],
          Some (IndexOutOfRange 1 0))
   \<and> render_hourly0 (Hourly no_hourly_temperature)
       = ([HourlyTitle 5], Some (IndexOutOfRange 0 0))
   \<and> exit (main (decoding_env no_hourly_temperature) (sample_cli 2))
       = Panicked (IndexOutOfRange 1 0)
   \<and> exit (main0 (decoding_env no_hourly_temperature) (sample_cli 2))
       = Panicked (IndexOutOfRange 0 0)"
  by (simp add: run_simps sample_simps)

section \<open>Index safety\<close>

text \<open>
  Claim C9. \<open>findCurrentHourIndex\<close> returns an index that is at least 0, below the length
  of a non-empty sequence, and 0 for the empty one. When every forecast the fetch can
  return has hourly sequences of one length and daily sequences of one length, no index
  expression of the two rendering loops is out of range: the run ends by an exit, never
  by a panic (in both versions of \<open>main\<close>).
\<close>

theorem rendering_indices_in_bounds:
  assumes "case snd (GetWeatherForecast e (lat c) (lon c)) of
             Inl err \<Rightarrow> True
           | Inr r \<Rightarrow> hourly_wf (Hourly r) \<and> daily_wf (Daily r)"
  shows "0 \<le> fst (snd (findCurrentHourIndex e hourlyTimes timezone))
     \<and> (hourlyTimes \<noteq> [] \<longrightarrow>
          fst (snd (findCurrentHourIndex e hourlyTimes timezone)) < int (length hourlyTimes))
     \<and> (hourlyTimes = [] \<longrightarrow> fst (snd (findCurrentHourIndex e hourlyTimes timezone)) = 0)
     \<and> (\<exists>code. exit (main e c) = Exited code)
     \<and> (\<exists>code. exit (main0 e c) = Exited code)"
proof -
  have "\<exists>code. exit (main e c) = Exited code"
    unfolding main_def
  proof (rule main_with_exits, intro allI impI conjI)
    fix r assume "snd (GetWeatherForecast e (lat c) (lon c)) = Inr r"
    with assms have w: "hourly_wf (Hourly r)" "daily_wf (Daily r)" by simp_all
    show "\<exists>ls. render_daily (Daily r) (days c) = (ls, None)"
      using render_daily_wf [OF w(2)] by simp
    obtain printed s err
      where "findCurrentHourIndex e (hTime (Hourly r)) (Timezone r) = (printed, s, err)"
      by (cases "findCurrentHourIndex e (hTime (Hourly r)) (Timezone r)")
    from hourly_section_wf [OF w(1) this]
    show "\<exists>hs. hourly_section e r = (hs, None)" by simp
  qed
  moreover have "\<exists>code. exit (main0 e c) = Exited code"
    unfolding main0_def
  proof (rule main_with_exits, intro allI impI conjI)
    fix r assume "snd (GetWeatherForecast e (lat c) (lon c)) = Inr r"
    with assms have w: "hourly_wf (Hourly r)" "daily_wf (Daily r)" by simp_all
    show "\<exists>ls. render_daily (Daily r) (days c) = (ls, None)"
      using render_daily_wf [OF w(2)] by simp
    show "\<exists>hs. render_hourly0 (Hourly r) = (hs, None)"
      using render_hourly0_wf [OF w(1)] by simp
  qed
  ultimately show ?thesis
    using findCurrentHourIndex_range [of e hourlyTimes timezone] by simp
qed

theorem rendering_indices_in_bounds_witness:
  "snd (GetWeatherForecast (sample_env 200 ''UTC'') (lat (sample_cli 7)) (lon (sample_cli 7)))
     = Inr (sample_response ''UTC'')
   \<and> hourly_wf (Hourly (sample_response ''UTC''))
   \<and> daily_wf (Daily (sample_response ''UTC''))
   \<and> hTime sample_hourly \<noteq> []
   \<and> fst (snd (findCurrentHourIndex (sample_env 200 ''UTC'') (hTime sample_hourly) ''UTC''
         :: int line list \<times> int \<times> go_error option)) < int (length (hTime sample_hourly))
   \<and> (\<exists>code. exit (main (sample_env 200 ''UTC'') (sample_cli 7)) = Exited code)
   \<and> (\<exists>code. exit (main0 (sample_env 200 ''UTC'') (sample_cli 7)) = Exited code)"
proof -
  have g: "snd (GetWeatherForecast (sample_env 200 ''UTC'') (lat (sample_cli 7)) (lon (sample_cli 7)))
     = Inr (sample_response ''UTC'')"
    by (simp add: sample_fetch)
  have w: "hourly_wf (Hourly (sample_response ''UTC''))" "daily_wf (Daily (sample_response ''UTC''))"
    by (simp_all add: sample_response_def sample_hourly_def sample_daily_def
        hourly_wf_def daily_wf_def)
  have a: "case snd (GetWeatherForecast (sample_env 200 ''UTC'') (lat (sample_cli 7)) (lon (sample_cli 7))) of
             Inl err \<Rightarrow> True
           | Inr r \<Rightarrow> hourly_wf (Hourly r) \<and> daily_wf (Daily r)"
    using g w by simp
  have n: "hTime sample_hourly \<noteq> []" by (simp add: sample_hourly_def)
  from rendering_indices_in_bounds [OF a, of "hTime sample_hourly" "''UTC''"] g w n
  show ?thesis by blast
qed

end
